theory Spec2Isabelle
  imports Complex_Main
begin

unbundle bit_operations_syntax

section \<open>MP5922 eFuse monitor: a shallow embedding of efuse\_code.py\<close>

text \<open>
  Python integers are unbounded and are modelled as \<open>int\<close>; \<open>&\<close>, \<open>|\<close>, \<open><<\<close> and
  \<open>>>\<close> are \<open>AND\<close>, \<open>OR\<close>, \<open>push_bit\<close> and \<open>drop_bit\<close>, which on \<open>int\<close> work on the
  infinite two's complement representation exactly as Python's operators do.
  A Python condition \<open>if x & m:\<close> tests \<open>x AND m \<noteq> 0\<close>.
\<close>

subsection \<open>Fault decoder\<close>

text \<open>
  \<open>decode_faults(sw, si, sin, st)\<close>: twelve independent tests in source order, each
  appending one name to the list \<open>faults\<close>; an empty list is replaced by
  \<open>["NO_FAULTS"]\<close>. The third parameter is written \<open>sin'\<close> here.
\<close>

definition decode_faults :: "int \<Rightarrow> int \<Rightarrow> int \<Rightarrow> int \<Rightarrow> string list" where
  "decode_faults sw si sin' st =
    (let faults = [];
         faults = (if sw AND push_bit 15 1 \<noteq> 0 then faults @ [''VOUT_OV''] else faults);
         faults = (if sw AND push_bit 14 1 \<noteq> 0 then faults @ [''IOUT_OC''] else faults);
         faults = (if sw AND push_bit 13 1 \<noteq> 0 then faults @ [''VIN_UV''] else faults);
         faults = (if sw AND push_bit 12 1 \<noteq> 0 then faults @ [''TEMP_FAULT''] else faults);
         faults = (if sw AND push_bit 7 1 \<noteq> 0 then faults @ [''DEVICE_FAULT''] else faults);
         faults = (if sw AND push_bit 6 1 \<noteq> 0 then faults @ [''POWER_GOOD=NO''] else faults);
         faults = (if si AND 1 \<noteq> 0 then faults @ [''IOUT_OC_WARNING''] else faults);
         faults = (if si AND 2 \<noteq> 0 then faults @ [''IOUT_OC_FAULT''] else faults);
         faults = (if sin' AND 1 \<noteq> 0 then faults @ [''VIN_UV_FAULT''] else faults);
         faults = (if sin' AND 2 \<noteq> 0 then faults @ [''VIN_OV_FAULT''] else faults);
         faults = (if st AND 1 \<noteq> 0 then faults @ [''TEMP_WARNING''] else faults);
         faults = (if st AND 2 \<noteq> 0 then faults @ [''TEMP_FAULT''] else faults)
     in if faults \<noteq> [] then faults else [''NO_FAULTS''])"

text \<open>
  The same list read as a table: one row for each test of the source, in source order,
  a row contributing its name when its bit is set. \<open>decode_faults_flags\<close> below
  proves that \<open>decode_faults\<close> computes exactly this.
\<close>

definition fault_flags :: "int \<Rightarrow> int \<Rightarrow> int \<Rightarrow> int \<Rightarrow> string list" where
  "fault_flags sw si sin' st =
     (if bit sw 15 then [''VOUT_OV''] else []) @
     (if bit sw 14 then [''IOUT_OC''] else []) @
     (if bit sw 13 then [''VIN_UV''] else []) @
     (if bit sw 12 then [''TEMP_FAULT''] else []) @
     (if bit sw 7 then [''DEVICE_FAULT''] else []) @
     (if bit sw 6 then [''POWER_GOOD=NO''] else []) @
     (if bit si 0 then [''IOUT_OC_WARNING''] else []) @
     (if bit si 1 then [''IOUT_OC_FAULT''] else []) @
     (if bit sin' 0 then [''VIN_UV_FAULT''] else []) @
     (if bit sin' 1 then [''VIN_OV_FAULT''] else []) @
     (if bit st 0 then [''TEMP_WARNING''] else []) @
     (if bit st 1 then [''TEMP_FAULT''] else [])"

text \<open>The names the twelve tests append, in source order.\<close>

definition fault_names :: "string list" where
  "fault_names =
     [''VOUT_OV'', ''IOUT_OC'', ''VIN_UV'', ''TEMP_FAULT'', ''DEVICE_FAULT'', ''POWER_GOOD=NO'',
      ''IOUT_OC_WARNING'', ''IOUT_OC_FAULT'', ''VIN_UV_FAULT'', ''VIN_OV_FAULT'',
      ''TEMP_WARNING'', ''TEMP_FAULT'']"

subsection \<open>Errors, the transport and the observable history\<close>

text \<open>
  Exceptions are values: a failing transport call (\<open>TransportError\<close>, raised inside the
  \<open>usb_iss\<close> library), an out-of-range list index, a failed \<open>int(...)\<close> conversion and a
  float division by zero.
\<close>

datatype error = TransportError | IndexError | ValueError | ZeroDivisionError

text \<open>
  Everything the program does to the outside world is one \<open>call\<close>: the bridge calls
  \<open>iss.open\<close>, \<open>iss.setup_i2c\<close>, \<open>iss.close\<close>, the bus calls \<open>i2c.read(addr, reg, n)\<close>
  and \<open>i2c.write(addr, reg, data)\<close>, and \<open>time.sleep(seconds)\<close>.
\<close>

datatype call =
    Open string
  | SetupI2c int
  | Close
  | I2cRead int int nat
  | I2cWrite int int "int list"
  | Sleep rat

text \<open>
  The \<open>usb_iss\<close> library and the hardware behind it are not part of the repository.
  The \<open>i2c\<close> object is modelled as a record of the calls made so far, in order, and of
  the \<open>device\<close>: an arbitrary function that, from the calls made before and the call
  made now, answers \<open>None\<close> (the library raises) or a list of bytes (the answer to
  anything but a read is ignored, as the source ignores it). A device may answer a
  read with fewer or more bytes than were asked for.
\<close>

record i2c =
  calls :: "call list"
  device :: "call list \<Rightarrow> call \<Rightarrow> int list option"

text \<open>Sequencing: an error ends the computation and keeps the history made so far.\<close>

definition then_do ::
  "(error + 'a) \<times> i2c \<Rightarrow> ('a \<Rightarrow> i2c \<Rightarrow> (error + 'b) \<times> i2c) \<Rightarrow> (error + 'b) \<times> i2c" where
  "then_do r f = (case r of (Inl e, i2c) \<Rightarrow> (Inl e, i2c) | (Inr x, i2c) \<Rightarrow> f x i2c)"

definition transport :: "i2c \<Rightarrow> call \<Rightarrow> (error + int list) \<times> i2c" where
  "transport i2c c =
     (case device i2c (calls i2c) c of None \<Rightarrow> Inl TransportError | Some d \<Rightarrow> Inr d,
      i2c\<lparr>calls := calls i2c @ [c]\<rparr>)"

definition i2c_read :: "i2c \<Rightarrow> int \<Rightarrow> int \<Rightarrow> nat \<Rightarrow> (error + int list) \<times> i2c" where
  "i2c_read i2c addr reg n = transport i2c (I2cRead addr reg n)"

definition i2c_write :: "i2c \<Rightarrow> int \<Rightarrow> int \<Rightarrow> int list \<Rightarrow> (error + unit) \<times> i2c" where
  "i2c_write i2c addr reg data =
     then_do (transport i2c (I2cWrite addr reg data)) (\<lambda>_ i2c. (Inr (), i2c))"

definition time_sleep :: "i2c \<Rightarrow> rat \<Rightarrow> (error + unit) \<times> i2c" where
  "time_sleep i2c seconds = (Inr (), i2c\<lparr>calls := calls i2c @ [Sleep seconds]\<rparr>)"

text \<open>The transport call log: the history without the sleeps.\<close>

fun is_transport_call :: "call \<Rightarrow> bool" where
  "is_transport_call (Sleep _) = False"
| "is_transport_call _ = True"

definition transport_log :: "i2c \<Rightarrow> call list" where
  "transport_log i2c = filter is_transport_call (calls i2c)"

subsection \<open>Configuration\<close>

definition PORT :: string where
  "PORT = ''/dev/ttyACM0''"

definition I2C_SPEED_KHZ :: int where
  "I2C_SPEED_KHZ = 100"

definition MP5922_ADDR :: int where
  "MP5922_ADDR = 0x70"

text \<open>The dict \<open>PAGES\<close>, as the list of its items in insertion order.\<close>

definition PAGES :: "(int \<times> string) list" where
  "PAGES = [(0, ''Main Rail (Loop 1)''), (1, ''Aux Rail  (Loop 2)''), (2, ''Rail 3    (Loop 3)'')]"

subsection \<open>Low-level helpers\<close>

text \<open>
  \<open>read_word\<close>: \<open>d = i2c.read(addr, reg, 2); return d[0] | (d[1] << 8)\<close>.
  Indexing a list that has no element 0 or no element 1 raises \<open>IndexError\<close>.
\<close>

definition read_word :: "i2c \<Rightarrow> int \<Rightarrow> int \<Rightarrow> (error + int) \<times> i2c" where
  "read_word i2c addr reg =
     then_do (i2c_read i2c addr reg 2) (\<lambda>d i2c.
       case d of
         b0 # b1 # _ \<Rightarrow> (Inr (b0 OR push_bit 8 b1), i2c)
       | _ \<Rightarrow> (Inl IndexError, i2c))"

definition write_word :: "i2c \<Rightarrow> int \<Rightarrow> int \<Rightarrow> int \<Rightarrow> (error + unit) \<times> i2c" where
  "write_word i2c addr reg v = i2c_write i2c addr reg [v AND 0xFF, drop_bit 8 v AND 0xFF]"

definition write_byte :: "i2c \<Rightarrow> int \<Rightarrow> int \<Rightarrow> int \<Rightarrow> (error + unit) \<times> i2c" where
  "write_byte i2c addr reg v = i2c_write i2c addr reg [v AND 0xFF]"

definition select_page :: "i2c \<Rightarrow> int \<Rightarrow> (error + unit) \<times> i2c" where
  "select_page i2c page =
     then_do (i2c_write i2c MP5922_ADDR 0x00 [page AND 0xFF]) (\<lambda>_ i2c. time_sleep i2c 0.01)"

subsection \<open>PMBus core actions\<close>

definition unlock_mp5922 :: "i2c \<Rightarrow> (error + unit) \<times> i2c" where
  "unlock_mp5922 i2c =
     then_do (write_word i2c MP5922_ADDR 0xE1 0x82C2) (\<lambda>_ i2c. time_sleep i2c 0.02)"

definition clear_faults :: "i2c \<Rightarrow> (error + unit) \<times> i2c" where
  "clear_faults i2c =
     then_do (i2c_write i2c MP5922_ADDR 0x03 []) (\<lambda>_ i2c. time_sleep i2c 0.01)"

definition rail_enable :: "i2c \<Rightarrow> int \<Rightarrow> (error + unit) \<times> i2c" where
  "rail_enable i2c page =
     then_do (select_page i2c page) (\<lambda>_ i2c. write_byte i2c MP5922_ADDR 0x01 0x80)"

definition rail_disable :: "i2c \<Rightarrow> int \<Rightarrow> (error + unit) \<times> i2c" where
  "rail_disable i2c page =
     then_do (select_page i2c page) (\<lambda>_ i2c. write_byte i2c MP5922_ADDR 0x01 0x00)"

subsection \<open>Datasheet conversions\<close>

text \<open>
  Python floats are modelled by rationals. Both scale factors are powers of two
  (\<open>0.015625 = 2\<^sup>-\<^sup>6\<close>, \<open>0.125 = 2\<^sup>-\<^sup>3\<close>), so for the 16-bit words that \<open>read_word\<close>
  composes from two bytes the products, and the sums and differences of a few of
  them, are computed by IEEE doubles without rounding and coincide with the rational
  values. A quotient is the exact quotient here, which the float result rounds.
  A float division by zero raises \<open>ZeroDivisionError\<close>.
\<close>

definition raw_to_voltage :: "int \<Rightarrow> rat" where
  "raw_to_voltage raw = of_int raw * 0.015625"

definition raw_to_power :: "int \<Rightarrow> rat" where
  "raw_to_power raw = of_int raw * 0.125"

definition truediv :: "rat \<Rightarrow> rat \<Rightarrow> error + rat" where
  "truediv a b = (if b = 0 then Inl ZeroDivisionError else Inr (a / b))"

subsection \<open>Status display\<close>

text \<open>
  \<open>show_status\<close> prints what it computes and returns nothing. The model returns the
  computed values instead of formatting them: one \<open>rail_report\<close> for each pass of the
  loop and one \<open>system_report\<close> for the whole call. The fields carry the names of the
  local variables of \<open>show_status\<close>, prefixed by \<open>rail_\<close> or \<open>sys_\<close>.
\<close>

record rail_report =
  rail_page :: int
  rail_name :: string
  rail_vin_raw :: int
  rail_vout_raw :: int
  rail_iout_raw :: int
  rail_pout_raw :: int
  rail_vin :: rat
  rail_vout :: rat
  rail_pout :: rat
  rail_iout :: rat
  rail_faults :: "string list"

record system_report =
  sys_pin_raw :: int
  sys_pin_w :: rat
  sys_rails :: "rail_report list"
  sys_total_pout :: rat
  sys_loss :: rat
  sys_eff :: rat

text \<open>Line 135: \<open>iout = pout / vout if vout > 0 else 0.0\<close>.\<close>

definition derived_iout :: "rat \<Rightarrow> rat \<Rightarrow> error + rat" where
  "derived_iout pout vout = (if vout > 0 then truediv pout vout else Inr 0.0)"

text \<open>Line 150: \<open>eff = (total_pout / pin_w * 100) if pin_w > 0 else 0\<close>.\<close>

definition efficiency :: "rat \<Rightarrow> rat \<Rightarrow> error + rat" where
  "efficiency total_pout pin_w =
     (if pin_w > 0
      then (case truediv total_pout pin_w of Inl e \<Rightarrow> Inl e | Inr q \<Rightarrow> Inr (q * 100))
      else Inr 0)"

text \<open>
  One pass of the loop \<open>for page, name in PAGES.items()\<close> (lines 118 to 146): it
  takes the running \<open>total_pout\<close> and returns the new one with the rail's values.
\<close>

definition show_status_rail ::
  "i2c \<Rightarrow> int \<Rightarrow> string \<Rightarrow> rat \<Rightarrow> (error + rat \<times> rail_report) \<times> i2c" where
  "show_status_rail i2c page name total_pout =
     then_do (select_page i2c page) (\<lambda>_ i2c.
     then_do (read_word i2c MP5922_ADDR 0x88) (\<lambda>vin_raw i2c.
     then_do (read_word i2c MP5922_ADDR 0x8B) (\<lambda>vout_raw i2c.
     then_do (read_word i2c MP5922_ADDR 0x8C) (\<lambda>iout_raw i2c.
     then_do (read_word i2c MP5922_ADDR 0x96) (\<lambda>pout_raw i2c.
     then_do (read_word i2c MP5922_ADDR 0x79) (\<lambda>sw i2c.
     then_do (read_word i2c MP5922_ADDR 0x7B) (\<lambda>si i2c.
     then_do (read_word i2c MP5922_ADDR 0x7C) (\<lambda>sin' i2c.
     then_do (read_word i2c MP5922_ADDR 0x7D) (\<lambda>st i2c.
       let vin = raw_to_voltage vin_raw;
           vout = raw_to_voltage vout_raw;
           pout = raw_to_power pout_raw
       in then_do (derived_iout pout vout, i2c) (\<lambda>iout i2c.
            let total_pout = total_pout + pout;
                faults = decode_faults sw si sin' st
            in (Inr (total_pout,
                  \<lparr>rail_page = page, rail_name = name,
                   rail_vin_raw = vin_raw, rail_vout_raw = vout_raw,
                   rail_iout_raw = iout_raw, rail_pout_raw = pout_raw,
                   rail_vin = vin, rail_vout = vout, rail_pout = pout, rail_iout = iout,
                   rail_faults = faults\<rparr>), i2c)))))))))))"

text \<open>The loop itself, over the items still to visit, with the reports made so far.\<close>

fun show_status_loop ::
  "i2c \<Rightarrow> (int \<times> string) list \<Rightarrow> rat \<Rightarrow> rail_report list
     \<Rightarrow> (error + rat \<times> rail_report list) \<times> i2c" where
  "show_status_loop i2c [] total_pout reports = (Inr (total_pout, reports), i2c)"
| "show_status_loop i2c ((page, name) # items) total_pout reports =
     then_do (show_status_rail i2c page name total_pout) (\<lambda>(total_pout, r) i2c.
       show_status_loop i2c items total_pout (reports @ [r]))"

text \<open>
  \<open>show_status\<close> for a given configuration of rails, and for the configured \<open>PAGES\<close>.
\<close>

definition show_status_of :: "(int \<times> string) list \<Rightarrow> i2c \<Rightarrow> (error + system_report) \<times> i2c" where
  "show_status_of pages i2c =
     then_do (read_word i2c MP5922_ADDR 0x97) (\<lambda>pin_raw i2c.
       let pin_w = raw_to_power pin_raw
       in then_do (show_status_loop i2c pages 0.0 []) (\<lambda>(total_pout, reports) i2c.
            let loss = pin_w - total_pout
            in then_do (efficiency total_pout pin_w, i2c) (\<lambda>eff i2c.
                 (Inr \<lparr>sys_pin_raw = pin_raw, sys_pin_w = pin_w, sys_rails = reports,
                       sys_total_pout = total_pout, sys_loss = loss, sys_eff = eff\<rparr>, i2c))))"

definition show_status :: "i2c \<Rightarrow> (error + system_report) \<times> i2c" where
  "show_status i2c = show_status_of PAGES i2c"

text \<open>
  What one pass of the loop is expected to add to the history when nothing fails: the
  page-select write, its settle delay and the eight word reads; and the same without
  the delay, as a transport sees it.
\<close>

definition rail_history :: "int \<Rightarrow> call list" where
  "rail_history page =
     [I2cWrite MP5922_ADDR 0x00 [page mod 256], Sleep 0.01,
      I2cRead MP5922_ADDR 0x88 2, I2cRead MP5922_ADDR 0x8B 2,
      I2cRead MP5922_ADDR 0x8C 2, I2cRead MP5922_ADDR 0x96 2,
      I2cRead MP5922_ADDR 0x79 2, I2cRead MP5922_ADDR 0x7B 2,
      I2cRead MP5922_ADDR 0x7C 2, I2cRead MP5922_ADDR 0x7D 2]"

definition rail_log :: "int \<Rightarrow> call list" where
  "rail_log page =
     [I2cWrite MP5922_ADDR 0x00 [page mod 256],
      I2cRead MP5922_ADDR 0x88 2, I2cRead MP5922_ADDR 0x8B 2,
      I2cRead MP5922_ADDR 0x8C 2, I2cRead MP5922_ADDR 0x96 2,
      I2cRead MP5922_ADDR 0x79 2, I2cRead MP5922_ADDR 0x7B 2,
      I2cRead MP5922_ADDR 0x7C 2, I2cRead MP5922_ADDR 0x7D 2]"

subsection \<open>Main\<close>

text \<open>
  \<open>main\<close> reads \<open>sys.argv\<close>, here the parameter \<open>argv\<close>. Python's builtin \<open>int\<close> on a
  string is not code of the repository; \<open>main\<close> takes it as the parameter \<open>to_int\<close>.
  What \<open>main\<close> prints is the \<open>outcome\<close>.
\<close>

datatype outcome =
    PrintedUsage
  | PrintedStatus system_report
  | PrintedCleared
  | PrintedUnknown
  | PrintedNothing

text \<open>\<open>for p in PAGES: f(i2c, p)\<close>, over the keys of the dict.\<close>

fun for_pages :: "(i2c \<Rightarrow> int \<Rightarrow> (error + unit) \<times> i2c) \<Rightarrow> i2c \<Rightarrow> int list \<Rightarrow> (error + unit) \<times> i2c" where
  "for_pages f i2c [] = (Inr (), i2c)"
| "for_pages f i2c (p # ps) = then_do (f i2c p) (\<lambda>_ i2c. for_pages f i2c ps)"

text \<open>\<open>sys.argv[k]\<close>, which raises \<open>IndexError\<close> past the end of the list.\<close>

definition argv_at :: "string list \<Rightarrow> nat \<Rightarrow> error + string" where
  "argv_at argv k = (if k < length argv then Inr (argv ! k) else Inl IndexError)"

definition main :: "(string \<Rightarrow> error + int) \<Rightarrow> string list \<Rightarrow> i2c \<Rightarrow> (error + outcome) \<times> i2c" where
  "main to_int argv i2c =
     then_do (transport i2c (Open PORT)) (\<lambda>_ i2c.
     then_do (transport i2c (SetupI2c I2C_SPEED_KHZ)) (\<lambda>_ i2c.
     then_do (unlock_mp5922 i2c) (\<lambda>_ i2c.
       if length argv < 2
       then then_do (transport i2c Close) (\<lambda>_ i2c. (Inr PrintedUsage, i2c))
       else
         then_do (argv_at argv 1, i2c) (\<lambda>cmd i2c.
         then_do
           (if cmd = ''status''
            then then_do (show_status i2c) (\<lambda>report i2c. (Inr (PrintedStatus report), i2c))
            else if cmd = ''on''
            then then_do (argv_at argv 2, i2c) (\<lambda>arg i2c.
                 then_do (to_int arg, i2c) (\<lambda>page i2c.
                 then_do (rail_enable i2c page) (\<lambda>_ i2c. (Inr PrintedNothing, i2c))))
            else if cmd = ''off''
            then then_do (argv_at argv 2, i2c) (\<lambda>arg i2c.
                 then_do (to_int arg, i2c) (\<lambda>page i2c.
                 then_do (rail_disable i2c page) (\<lambda>_ i2c. (Inr PrintedNothing, i2c))))
            else if cmd = ''on_all''
            then then_do (for_pages rail_enable i2c (map fst PAGES))
                   (\<lambda>_ i2c. (Inr PrintedNothing, i2c))
            else if cmd = ''off_all''
            then then_do (for_pages rail_disable i2c (map fst PAGES))
                   (\<lambda>_ i2c. (Inr PrintedNothing, i2c))
            else if cmd = ''clear''
            then then_do (clear_faults i2c) (\<lambda>_ i2c. (Inr PrintedCleared, i2c))
            else (Inr PrintedUnknown, i2c))
           (\<lambda>out i2c. then_do (transport i2c Close) (\<lambda>_ i2c. (Inr out, i2c)))))))"

text \<open>
  Decimal strings: an optional \<open>-\<close> and then one or more ASCII digits. On these strings
  \<open>decimal_int\<close> is what Python's \<open>int\<close> returns; every other string is outside this
  model of the builtin and is answered with \<open>ValueError\<close>.
\<close>

definition digit_value :: "char \<Rightarrow> int option" where
  "digit_value c =
     (let n = (of_char c :: nat)
      in if 48 \<le> n \<and> n \<le> 57 then Some (int n - 48) else None)"

fun decimal_nat :: "string \<Rightarrow> int \<Rightarrow> error + int" where
  "decimal_nat [] acc = Inr acc"
| "decimal_nat (c # cs) acc =
     (case digit_value c of None \<Rightarrow> Inl ValueError | Some d \<Rightarrow> decimal_nat cs (acc * 10 + d))"

definition decimal_int :: "string \<Rightarrow> error + int" where
  "decimal_int s =
     (case s of
        [] \<Rightarrow> Inl ValueError
      | c # cs \<Rightarrow>
          if c = CHR ''-''
          then (if cs = [] then Inl ValueError
                else (case decimal_nat cs 0 of Inl e \<Rightarrow> Inl e | Inr n \<Rightarrow> Inr (- n)))
          else decimal_nat s 0)"

subsection \<open>Devices\<close>

text \<open>
  A device is obliging when it accepts every call and answers every two-byte read with
  at least two bytes.
\<close>

definition obliging :: "i2c \<Rightarrow> bool" where
  "obliging i2c \<longleftrightarrow>
     (\<forall>h c. \<exists>d. device i2c h c = Some d \<and> (\<forall>addr reg. c = I2cRead addr reg 2 \<longrightarrow> 2 \<le> length d))"

text \<open>
  A device that accepts every call and answers a read of \<open>n\<close> bytes from a register
  image, low byte first.
\<close>

fun image_device :: "(int \<Rightarrow> int) \<Rightarrow> call list \<Rightarrow> call \<Rightarrow> int list option" where
  "image_device img h (I2cRead addr reg n) =
     Some (take n [img reg mod 256, img reg div 256 mod 256])"
| "image_device img h c = Some []"

text \<open>
  The bench image: \<open>READ_PIN\<close> 80 (10 W), \<open>READ_VIN\<close> 768 (12 V), \<open>READ_VOUT\<close> 320 (5 V),
  \<open>READ_IOUT\<close> 7, \<open>READ_POUT\<close> 16 (2 W), \<open>STATUS_WORD\<close> 0x1000, \<open>STATUS_TEMP\<close> 0x02,
  every other register 0.
\<close>

definition bench_word :: "int \<Rightarrow> int" where
  "bench_word reg =
     (if reg = 0x97 then 80 else if reg = 0x88 then 768 else if reg = 0x8B then 320
      else if reg = 0x8C then 7 else if reg = 0x96 then 16
      else if reg = 0x79 then 0x1000 else if reg = 0x7D then 0x02 else 0)"

definition bench :: i2c where
  "bench = \<lparr>calls = [], device = image_device bench_word\<rparr>"

text \<open>The same bench with input power reading 0: every rail still delivers 2 W.\<close>

definition dark_word :: "int \<Rightarrow> int" where
  "dark_word reg = (if reg = 0x97 then 0 else bench_word reg)"

definition dark_bench :: i2c where
  "dark_bench = \<lparr>calls = [], device = image_device dark_word\<rparr>"

text \<open>Everything switched off: every register reads 0.\<close>

definition off_word :: "int \<Rightarrow> int" where
  "off_word reg = 0"

definition off_bench :: i2c where
  "off_bench = \<lparr>calls = [], device = image_device off_word\<rparr>"

text \<open>A device that answers every call with the single byte \<open>0x34\<close>.\<close>

definition short_device :: "call list \<Rightarrow> call \<Rightarrow> int list option" where
  "short_device h c = Some [0x34]"

definition short_bench :: i2c where
  "short_bench = \<lparr>calls = [], device = short_device\<rparr>"

text \<open>A bridge with nothing behind it: every call fails.\<close>

definition dead_device :: "call list \<Rightarrow> call \<Rightarrow> int list option" where
  "dead_device h c = None"

definition dead_bench :: i2c where
  "dead_bench = \<lparr>calls = [], device = dead_device\<rparr>"

text \<open>
  What \<open>show_status\<close> computes for one rail of the bench, for one rail of the
  switched-off bench, and the history of one status read over the three rails.
\<close>

definition bench_rail :: "int \<Rightarrow> string \<Rightarrow> rail_report" where
  "bench_rail page name =
     \<lparr>rail_page = page, rail_name = name,
      rail_vin_raw = 768, rail_vout_raw = 320, rail_iout_raw = 7, rail_pout_raw = 16,
      rail_vin = 12, rail_vout = 5, rail_pout = 2, rail_iout = 2 / 5,
      rail_faults = [''TEMP_FAULT'', ''TEMP_FAULT'']\<rparr>"

definition off_rail :: "int \<Rightarrow> string \<Rightarrow> rail_report" where
  "off_rail page name =
     \<lparr>rail_page = page, rail_name = name,
      rail_vin_raw = 0, rail_vout_raw = 0, rail_iout_raw = 0, rail_pout_raw = 0,
      rail_vin = 0, rail_vout = 0, rail_pout = 0, rail_iout = 0,
      rail_faults = [''NO_FAULTS'']\<rparr>"

definition status_history :: "call list" where
  "status_history =
     I2cRead MP5922_ADDR 0x97 2 # rail_history 0 @ rail_history 1 @ rail_history 2"

section \<open>Properties\<close>

subsection \<open>Sequencing and bytes\<close>

lemma then_do_Inl [simp]: "then_do (Inl e, s) f = (Inl e, s)"
  by (simp add: then_do_def)

lemma then_do_Inr [simp]: "then_do (Inr x, s) f = f x s"
  by (simp add: then_do_def)

lemma then_do_eq_Inr:
  "then_do r f = (Inr y, s') \<longleftrightarrow> (\<exists>x s. r = (Inr x, s) \<and> f x s = (Inr y, s'))"
proof (cases r)
  case (Pair a s)
  then show ?thesis by (cases a) simp_all
qed

lemma then_do_eq_Inl:
  "then_do r f = (Inl e, s') \<longleftrightarrow>
     r = (Inl e, s') \<or> (\<exists>x s. r = (Inr x, s) \<and> f x s = (Inl e, s'))"
proof (cases r)
  case (Pair a s)
  then show ?thesis by (cases a) auto
qed

lemma and_255: "(v::int) AND 0xFF = v mod 256"
proof -
  have "v AND mask 8 = take_bit 8 v" by (simp add: take_bit_eq_mask)
  then show ?thesis by (simp add: take_bit_eq_mod mask_eq_exp_minus_1)
qed

lemma drop_8: "drop_bit 8 (v::int) = v div 256"
  by (simp add: drop_bit_eq_div)

lemma word_split: "(v::int) mod 256 + 256 * (v div 256 mod 256) = v mod 65536"
  using zmod_zmult2_eq [of 256 v 256] by simp

lemma or_bytes: "0 \<le> b0 \<Longrightarrow> b0 < 256 \<Longrightarrow> (b0::int) OR push_bit 8 b1 = b0 + 256 * b1"
proof -
  assume a: "0 \<le> b0" "b0 < 256"
  have t: "take_bit 8 b0 = b0" using a by (simp add: take_bit_int_eq_self)
  have "concat_bit 8 b0 b1 = take_bit 8 b0 + push_bit 8 b1" by (rule concat_bit_eq)
  then show ?thesis using t by (simp add: concat_bit_def push_bit_eq_mult)
qed

subsection \<open>The transport\<close>

lemma snd_transport: "snd (transport i2c c) = i2c\<lparr>calls := calls i2c @ [c]\<rparr>"
  by (simp add: transport_def)

lemma fst_transport:
  "fst (transport i2c c) =
     (case device i2c (calls i2c) c of None \<Rightarrow> Inl TransportError | Some d \<Rightarrow> Inr d)"
  by (simp add: transport_def)

lemma snd_i2c_write:
  "snd (i2c_write i2c addr reg data) = i2c\<lparr>calls := calls i2c @ [I2cWrite addr reg data]\<rparr>"
  by (simp add: i2c_write_def transport_def split: option.splits)

lemma fst_i2c_write:
  "fst (i2c_write i2c addr reg data) =
     (case device i2c (calls i2c) (I2cWrite addr reg data) of
        None \<Rightarrow> Inl TransportError | Some d \<Rightarrow> Inr ())"
  by (simp add: i2c_write_def transport_def split: option.splits)

lemma snd_read_word:
  "snd (read_word i2c addr reg) = i2c\<lparr>calls := calls i2c @ [I2cRead addr reg 2]\<rparr>"
  by (simp add: read_word_def i2c_read_def transport_def split: option.splits list.splits)

lemma fst_read_word:
  "fst (read_word i2c addr reg) =
     (case device i2c (calls i2c) (I2cRead addr reg 2) of
        None \<Rightarrow> Inl TransportError
      | Some d \<Rightarrow> (case d of b0 # b1 # _ \<Rightarrow> Inr (b0 OR push_bit 8 b1) | _ \<Rightarrow> Inl IndexError))"
  by (simp add: read_word_def i2c_read_def transport_def split: option.splits list.splits)

lemma read_word_Inr:
  assumes "read_word i2c addr reg = (Inr w, i2c')"
  shows "i2c' = i2c\<lparr>calls := calls i2c @ [I2cRead addr reg 2]\<rparr>"
  using assms snd_read_word [of i2c addr reg] by simp

lemma read_word_error:
  assumes "read_word i2c addr reg = (Inl e, i2c')"
  shows "e = TransportError \<or> e = IndexError"
  using assms fst_read_word [of i2c addr reg]
  by (auto split: option.splits list.splits)

lemma snd_select_page_ok:
  assumes "select_page i2c page = (Inr u, i2c')"
  shows "i2c' = i2c\<lparr>calls := calls i2c @ [I2cWrite MP5922_ADDR 0x00 [page mod 256], Sleep 0.01]\<rparr>"
  using assms
  by (auto simp: select_page_def then_do_eq_Inr time_sleep_def and_255 dest!: arg_cong [where f = snd] simp: snd_i2c_write)

lemma select_page_error:
  assumes "select_page i2c page = (Inl e, i2c')"
  shows "e = TransportError"
  using assms fst_i2c_write [of i2c MP5922_ADDR 0 "[page AND 0xFF]"]
  by (auto simp: select_page_def then_do_eq_Inl time_sleep_def split: option.splits)

subsection \<open>One pass of the status loop\<close>

lemma derived_iout_total: "derived_iout pout vout = Inr (if vout > 0 then pout / vout else 0)"
  by (simp add: derived_iout_def truediv_def)

lemma efficiency_total:
  "efficiency total_pout pin_w = Inr (if pin_w > 0 then total_pout / pin_w * 100 else 0)"
  by (simp add: efficiency_def truediv_def)

lemma show_status_rail_Inr:
  assumes "show_status_rail i2c page name tot = (Inr (tot', r), i2c')"
  shows "i2c' = i2c\<lparr>calls := calls i2c @ rail_history page\<rparr>"
    and "tot' = tot + rail_pout r"
    and "rail_page r = page" and "rail_name r = name"
    and "rail_vin r = raw_to_voltage (rail_vin_raw r)"
    and "rail_vout r = raw_to_voltage (rail_vout_raw r)"
    and "rail_pout r = raw_to_power (rail_pout_raw r)"
    and "derived_iout (rail_pout r) (rail_vout r) = Inr (rail_iout r)"
proof -
  from assms obtain u s0 vin_raw s1 vout_raw s2 iout_raw s3 pout_raw s4 sw s5 si s6 sin' s7 st s8 iout
    where sp: "select_page i2c page = (Inr u, s0)"
      and r1: "read_word s0 MP5922_ADDR 0x88 = (Inr vin_raw, s1)"
      and r2: "read_word s1 MP5922_ADDR 0x8B = (Inr vout_raw, s2)"
      and r3: "read_word s2 MP5922_ADDR 0x8C = (Inr iout_raw, s3)"
      and r4: "read_word s3 MP5922_ADDR 0x96 = (Inr pout_raw, s4)"
      and r5: "read_word s4 MP5922_ADDR 0x79 = (Inr sw, s5)"
      and r6: "read_word s5 MP5922_ADDR 0x7B = (Inr si, s6)"
      and r7: "read_word s6 MP5922_ADDR 0x7C = (Inr sin', s7)"
      and r8: "read_word s7 MP5922_ADDR 0x7D = (Inr st, s8)"
      and io: "derived_iout (raw_to_power pout_raw) (raw_to_voltage vout_raw) = Inr iout"
      and res: "tot' = tot + raw_to_power pout_raw"
        "r = \<lparr>rail_page = page, rail_name = name,
               rail_vin_raw = vin_raw, rail_vout_raw = vout_raw,
               rail_iout_raw = iout_raw, rail_pout_raw = pout_raw,
               rail_vin = raw_to_voltage vin_raw, rail_vout = raw_to_voltage vout_raw,
               rail_pout = raw_to_power pout_raw, rail_iout = iout,
               rail_faults = decode_faults sw si sin' st\<rparr>"
        "i2c' = s8"
    unfolding show_status_rail_def then_do_eq_Inr Let_def by auto
  note steps = snd_select_page_ok [OF sp] read_word_Inr [OF r1] read_word_Inr [OF r2]
    read_word_Inr [OF r3] read_word_Inr [OF r4] read_word_Inr [OF r5] read_word_Inr [OF r6]
    read_word_Inr [OF r7] read_word_Inr [OF r8]
  show "i2c' = i2c\<lparr>calls := calls i2c @ rail_history page\<rparr>"
    using res(3) steps by (simp add: rail_history_def)
  show "tot' = tot + rail_pout r" using res by simp
  show "rail_page r = page" "rail_name r = name" using res by simp_all
  show "rail_vin r = raw_to_voltage (rail_vin_raw r)" using res by simp
  show "rail_vout r = raw_to_voltage (rail_vout_raw r)" using res by simp
  show "rail_pout r = raw_to_power (rail_pout_raw r)" using res by simp
  show "derived_iout (rail_pout r) (rail_vout r) = Inr (rail_iout r)" using res io by simp
qed

subsection \<open>The status loop and the whole status read\<close>

lemma show_status_loop_Inr:
  assumes "show_status_loop i2c items tot reports = (Inr (tot', reports'), i2c')"
  shows "\<exists>new. reports' = reports @ new
           \<and> map rail_page new = map fst items
           \<and> map rail_name new = map snd items
           \<and> tot' = tot + sum_list (map rail_pout new)
           \<and> i2c' = i2c\<lparr>calls := calls i2c @ concat (map rail_history (map fst items))\<rparr>
           \<and> (\<forall>r \<in> set new.
                 rail_vout r = raw_to_voltage (rail_vout_raw r)
               \<and> rail_pout r = raw_to_power (rail_pout_raw r)
               \<and> derived_iout (rail_pout r) (rail_vout r) = Inr (rail_iout r))"
  using assms
proof (induction items arbitrary: i2c tot reports)
  case Nil
  then show ?case by auto
next
  case (Cons item items)
  obtain page name where item: "item = (page, name)" by (cases item)
  from Cons.prems item obtain tot1 r s1
    where rail: "show_status_rail i2c page name tot = (Inr (tot1, r), s1)"
      and rest: "show_status_loop s1 items tot1 (reports @ [r]) = (Inr (tot', reports'), i2c')"
    by (auto simp: then_do_eq_Inr)
  note facts = show_status_rail_Inr [OF rail]
  from Cons.IH [OF rest] obtain new
    where new: "reports' = (reports @ [r]) @ new"
      "map rail_page new = map fst items" "map rail_name new = map snd items"
      "tot' = tot1 + sum_list (map rail_pout new)"
      "i2c' = s1\<lparr>calls := calls s1 @ concat (map rail_history (map fst items))\<rparr>"
      "\<forall>r \<in> set new.
         rail_vout r = raw_to_voltage (rail_vout_raw r)
       \<and> rail_pout r = raw_to_power (rail_pout_raw r)
       \<and> derived_iout (rail_pout r) (rail_vout r) = Inr (rail_iout r)"
    by blast
  show ?case
  proof (intro exI [of _ "r # new"] conjI)
    show "reports' = reports @ r # new" using new(1) by simp
    show "map rail_page (r # new) = map fst (item # items)" using new(2) facts(3) item by simp
    show "map rail_name (r # new) = map snd (item # items)" using new(3) facts(4) item by simp
    show "tot' = tot + sum_list (map rail_pout (r # new))" using new(4) facts(2) by simp
    show "i2c' = i2c\<lparr>calls := calls i2c @ concat (map rail_history (map fst (item # items)))\<rparr>"
      using new(5) facts(1) item by simp
    show "\<forall>r \<in> set (r # new).
         rail_vout r = raw_to_voltage (rail_vout_raw r)
       \<and> rail_pout r = raw_to_power (rail_pout_raw r)
       \<and> derived_iout (rail_pout r) (rail_vout r) = Inr (rail_iout r)"
      using new(6) facts(6,7,8) by auto
  qed
qed

lemma show_status_of_Inr:
  assumes "show_status_of pages i2c = (Inr rep, i2c')"
  shows "i2c' = i2c\<lparr>calls := calls i2c @ I2cRead MP5922_ADDR 0x97 2 # concat (map rail_history (map fst pages))\<rparr>"
    and "map rail_page (sys_rails rep) = map fst pages"
    and "map rail_name (sys_rails rep) = map snd pages"
    and "sys_pin_w rep = raw_to_power (sys_pin_raw rep)"
    and "sys_total_pout rep = sum_list (map rail_pout (sys_rails rep))"
    and "sys_loss rep = sys_pin_w rep - sys_total_pout rep"
    and "efficiency (sys_total_pout rep) (sys_pin_w rep) = Inr (sys_eff rep)"
    and "\<forall>r \<in> set (sys_rails rep).
         rail_vout r = raw_to_voltage (rail_vout_raw r)
       \<and> rail_pout r = raw_to_power (rail_pout_raw r)
       \<and> derived_iout (rail_pout r) (rail_vout r) = Inr (rail_iout r)"
proof -
  from assms obtain pin_raw s0 tot reports eff
    where pin: "read_word i2c MP5922_ADDR 0x97 = (Inr pin_raw, s0)"
      and loop: "show_status_loop s0 pages 0 [] = (Inr (tot, reports), i2c')"
      and eff: "efficiency tot (raw_to_power pin_raw) = Inr eff"
      and rep: "rep = \<lparr>sys_pin_raw = pin_raw, sys_pin_w = raw_to_power pin_raw,
                  sys_rails = reports, sys_total_pout = tot,
                  sys_loss = raw_to_power pin_raw - tot, sys_eff = eff\<rparr>"
    unfolding show_status_of_def Let_def efficiency_total then_do_Inr then_do_eq_Inr by auto
  from show_status_loop_Inr [OF loop] obtain new
    where new: "reports = [] @ new"
      "map rail_page new = map fst pages" "map rail_name new = map snd pages"
      "tot = 0 + sum_list (map rail_pout new)"
      "i2c' = s0\<lparr>calls := calls s0 @ concat (map rail_history (map fst pages))\<rparr>"
      "\<forall>r \<in> set new.
         rail_vout r = raw_to_voltage (rail_vout_raw r)
       \<and> rail_pout r = raw_to_power (rail_pout_raw r)
       \<and> derived_iout (rail_pout r) (rail_vout r) = Inr (rail_iout r)"
    by blast
  show "i2c' = i2c\<lparr>calls := calls i2c @ I2cRead MP5922_ADDR 0x97 2 # concat (map rail_history (map fst pages))\<rparr>"
    using new(5) read_word_Inr [OF pin] by simp
  show "map rail_page (sys_rails rep) = map fst pages" using new rep by simp
  show "map rail_name (sys_rails rep) = map snd pages" using new rep by simp
  show "sys_pin_w rep = raw_to_power (sys_pin_raw rep)" using rep by simp
  show "sys_total_pout rep = sum_list (map rail_pout (sys_rails rep))" using new rep by simp
  show "sys_loss rep = sys_pin_w rep - sys_total_pout rep" using rep by simp
  show "efficiency (sys_total_pout rep) (sys_pin_w rep) = Inr (sys_eff rep)" using rep eff by simp
  show "\<forall>r \<in> set (sys_rails rep).
         rail_vout r = raw_to_voltage (rail_vout_raw r)
       \<and> rail_pout r = raw_to_power (rail_pout_raw r)
       \<and> derived_iout (rail_pout r) (rail_vout r) = Inr (rail_iout r)"
    using new(1,6) rep by auto
qed

lemma filter_rail_history: "filter is_transport_call (rail_history page) = rail_log page"
  by (simp add: rail_history_def rail_log_def)

lemma filter_concat_rail_history:
  "filter is_transport_call (concat (map rail_history ps)) = concat (map rail_log ps)"
  by (induction ps) (simp_all add: filter_rail_history)

subsection \<open>Which errors a status read can end with\<close>

lemma show_status_rail_error:
  assumes "show_status_rail i2c page name tot = (Inl e, i2c')"
  shows "e = TransportError \<or> e = IndexError"
  using assms
  unfolding show_status_rail_def Let_def derived_iout_total then_do_Inr then_do_eq_Inl
  by (auto dest: read_word_error select_page_error)

lemma show_status_loop_error:
  assumes "show_status_loop i2c items tot reports = (Inl e, i2c')"
  shows "e = TransportError \<or> e = IndexError"
  using assms
proof (induction items arbitrary: i2c tot reports)
  case Nil
  then show ?case by simp
next
  case (Cons item items)
  obtain page name where item: "item = (page, name)" by (cases item)
  from Cons.prems item
  consider "show_status_rail i2c page name tot = (Inl e, i2c')"
    | tot1 r s1 where "show_status_loop s1 items tot1 (reports @ [r]) = (Inl e, i2c')"
    by (auto simp: then_do_eq_Inl)
  then show ?case
  proof cases
    case 1
    then show ?thesis by (rule show_status_rail_error)
  next
    case 2
    then show ?thesis by (rule Cons.IH)
  qed
qed

lemma show_status_of_error:
  assumes "show_status_of pages i2c = (Inl e, i2c')"
  shows "e = TransportError \<or> e = IndexError"
  using assms
  unfolding show_status_of_def Let_def efficiency_total then_do_Inr then_do_eq_Inl
  by (auto dest: read_word_error show_status_loop_error)

subsection \<open>A device that answers every call with at least two bytes\<close>

lemma read_word_ok:
  assumes "obliging i2c"
  shows "\<exists>w. read_word i2c addr reg = (Inr w, i2c\<lparr>calls := calls i2c @ [I2cRead addr reg 2]\<rparr>)"
proof -
  from assms obtain d where d: "device i2c (calls i2c) (I2cRead addr reg 2) = Some d" "2 \<le> length d"
    unfolding obliging_def by blast
  then obtain b0 b1 rest where "d = b0 # b1 # rest"
    by (cases d; cases "tl d") auto
  with d show ?thesis
    by (simp add: read_word_def i2c_read_def transport_def)
qed

lemma select_page_ok:
  assumes "obliging i2c"
  shows "select_page i2c page =
           (Inr (), i2c\<lparr>calls := calls i2c @ [I2cWrite MP5922_ADDR 0x00 [page mod 256], Sleep 0.01]\<rparr>)"
proof -
  from assms obtain d where "device i2c (calls i2c) (I2cWrite MP5922_ADDR 0x00 [page mod 256]) = Some d"
    unfolding obliging_def by blast
  then show ?thesis
    by (simp add: select_page_def i2c_write_def transport_def time_sleep_def and_255)
qed

lemma show_status_rail_ok:
  assumes coop: "obliging i2c"
  shows "\<exists>tot' r. show_status_rail i2c page name tot =
           (Inr (tot', r), i2c\<lparr>calls := calls i2c @ rail_history page\<rparr>)"
proof -
  define s0 where "s0 = i2c\<lparr>calls := calls i2c @ [I2cWrite MP5922_ADDR 0x00 [page mod 256], Sleep 0.01]\<rparr>"
  define s1 where "s1 = s0\<lparr>calls := calls s0 @ [I2cRead MP5922_ADDR 0x88 2]\<rparr>"
  define s2 where "s2 = s1\<lparr>calls := calls s1 @ [I2cRead MP5922_ADDR 0x8B 2]\<rparr>"
  define s3 where "s3 = s2\<lparr>calls := calls s2 @ [I2cRead MP5922_ADDR 0x8C 2]\<rparr>"
  define s4 where "s4 = s3\<lparr>calls := calls s3 @ [I2cRead MP5922_ADDR 0x96 2]\<rparr>"
  define s5 where "s5 = s4\<lparr>calls := calls s4 @ [I2cRead MP5922_ADDR 0x79 2]\<rparr>"
  define s6 where "s6 = s5\<lparr>calls := calls s5 @ [I2cRead MP5922_ADDR 0x7B 2]\<rparr>"
  define s7 where "s7 = s6\<lparr>calls := calls s6 @ [I2cRead MP5922_ADDR 0x7C 2]\<rparr>"
  define s8 where "s8 = s7\<lparr>calls := calls s7 @ [I2cRead MP5922_ADDR 0x7D 2]\<rparr>"
  note defs = s0_def s1_def s2_def s3_def s4_def s5_def s6_def s7_def s8_def
  have dev: "obliging s0" "obliging s1" "obliging s2" "obliging s3" "obliging s4"
    "obliging s5" "obliging s6" "obliging s7"
    using coop by (simp_all add: defs obliging_def)
  have sp: "select_page i2c page = (Inr (), s0)"
    unfolding s0_def by (rule select_page_ok [OF coop])
  obtain w1 where r1: "read_word s0 MP5922_ADDR 0x88 = (Inr w1, s1)"
    unfolding s1_def using read_word_ok [OF dev(1)] by blast
  obtain w2 where r2: "read_word s1 MP5922_ADDR 0x8B = (Inr w2, s2)"
    unfolding s2_def using read_word_ok [OF dev(2)] by blast
  obtain w3 where r3: "read_word s2 MP5922_ADDR 0x8C = (Inr w3, s3)"
    unfolding s3_def using read_word_ok [OF dev(3)] by blast
  obtain w4 where r4: "read_word s3 MP5922_ADDR 0x96 = (Inr w4, s4)"
    unfolding s4_def using read_word_ok [OF dev(4)] by blast
  obtain w5 where r5: "read_word s4 MP5922_ADDR 0x79 = (Inr w5, s5)"
    unfolding s5_def using read_word_ok [OF dev(5)] by blast
  obtain w6 where r6: "read_word s5 MP5922_ADDR 0x7B = (Inr w6, s6)"
    unfolding s6_def using read_word_ok [OF dev(6)] by blast
  obtain w7 where r7: "read_word s6 MP5922_ADDR 0x7C = (Inr w7, s7)"
    unfolding s7_def using read_word_ok [OF dev(7)] by blast
  obtain w8 where r8: "read_word s7 MP5922_ADDR 0x7D = (Inr w8, s8)"
    unfolding s8_def using read_word_ok [OF dev(8)] by blast
  have "s8 = i2c\<lparr>calls := calls i2c @ rail_history page\<rparr>"
    by (simp add: defs rail_history_def)
  then show ?thesis
    unfolding show_status_rail_def Let_def derived_iout_total
    by (simp add: sp r1 r2 r3 r4 r5 r6 r7 r8)
qed

lemma show_status_loop_ok:
  assumes "obliging i2c"
  shows "\<exists>tot' reports' i2c'. show_status_loop i2c items tot reports = (Inr (tot', reports'), i2c')"
  using assms
proof (induction items arbitrary: i2c tot reports)
  case Nil
  then show ?case by simp
next
  case (Cons item items)
  obtain page name where item: "item = (page, name)" by (cases item)
  from show_status_rail_ok [OF Cons.prems] obtain tot1 r
    where rail: "show_status_rail i2c page name tot =
                   (Inr (tot1, r), i2c\<lparr>calls := calls i2c @ rail_history page\<rparr>)"
    by blast
  have "obliging (i2c\<lparr>calls := calls i2c @ rail_history page\<rparr>)"
    using Cons.prems by (simp add: obliging_def)
  from Cons.IH [OF this] show ?case
    by (simp add: item rail)
qed

lemma show_status_of_ok:
  assumes coop: "obliging i2c"
  shows "\<exists>rep i2c'. show_status_of pages i2c = (Inr rep, i2c')"
proof -
  from read_word_ok [OF coop] obtain pin_raw
    where pin: "read_word i2c MP5922_ADDR 0x97 =
                  (Inr pin_raw, i2c\<lparr>calls := calls i2c @ [I2cRead MP5922_ADDR 0x97 2]\<rparr>)"
    by blast
  have "obliging (i2c\<lparr>calls := calls i2c @ [I2cRead MP5922_ADDR 0x97 2]\<rparr>)"
    using coop by (simp add: obliging_def)
  from show_status_loop_ok [OF this] obtain tot reports s
    where "show_status_loop (i2c\<lparr>calls := calls i2c @ [I2cRead MP5922_ADDR 0x97 2]\<rparr>) pages 0 []
             = (Inr (tot, reports), s)"
    by blast
  then show ?thesis
    unfolding show_status_of_def Let_def efficiency_total
    by (simp add: pin)
qed

subsection \<open>Decoder\<close>

lemma append_if_last: "(if c then xs @ [a] else xs) = xs @ (if c then [a] else [])"
  by simp

lemma test_bit0: "(k AND 1 \<noteq> 0) = bit (k::int) 0"
  by (simp add: and_one_eq bit_0 mod_2_eq_odd)

lemma test_bit1: "(k AND 2 \<noteq> 0) = bit (k::int) 1"
  using bit_iff_and_push_bit_not_eq_0 [of k 1] by simp

lemma test_bitn: "(k AND push_bit n 1 \<noteq> 0) = bit (k::int) n"
  by (simp add: bit_iff_and_push_bit_not_eq_0)

lemma decode_faults_flags:
  "decode_faults sw si sin' st =
     (if fault_flags sw si sin' st \<noteq> [] then fault_flags sw si sin' st else [''NO_FAULTS''])"
  unfolding decode_faults_def fault_flags_def Let_def test_bit0 test_bit1 test_bitn append_if_last
  by (simp only: append_Nil append_assoc)

lemma distinct_fault_flags:
  "distinct (fault_flags sw si sin' st) \<longleftrightarrow> \<not> (bit sw 12 \<and> bit st 1)"
  unfolding fault_flags_def by simp

lemma decode_faults_distinct_iff:
  "distinct (decode_faults sw si sin' st) \<longleftrightarrow> \<not> (bit sw 12 \<and> bit st 1)"
  by (simp add: decode_faults_flags distinct_fault_flags) (simp add: fault_flags_def)

lemma fault_flags_all_set:
  "bit sw 15 \<Longrightarrow> bit sw 14 \<Longrightarrow> bit sw 13 \<Longrightarrow> bit sw 12 \<Longrightarrow> bit sw 7 \<Longrightarrow> bit sw 6 \<Longrightarrow>
   bit si 0 \<Longrightarrow> bit si 1 \<Longrightarrow> bit sin' 0 \<Longrightarrow> bit sin' 1 \<Longrightarrow> bit st 0 \<Longrightarrow> bit st 1 \<Longrightarrow>
   decode_faults sw si sin' st = fault_names"
  by (simp add: decode_faults_flags fault_flags_def fault_names_def)

lemma decode_faults_F0C0: "decode_faults 0xF0C0 0x03 0x03 0x03 = fault_names"
  by (simp add: decode_faults_def fault_names_def)

text \<open>
  Claim C1 (no fault name appears twice in the result of \<open>decode_faults\<close>): the source
  appends the one name \<open>TEMP_FAULT\<close> both for bit 12 of the status word and for bit 1
  of the temperature status, so with both bits set the result holds that name twice.
  By \<open>decode_faults_distinct_iff\<close> these are the only inputs with a repeated name.
\<close>

theorem decode_faults_temp_fault_twice:
  "decode_faults 0x1000 0 0 0x02 = [''TEMP_FAULT'', ''TEMP_FAULT'']
   \<and> \<not> distinct (decode_faults 0x1000 0 0 0x02)"
  by (simp add: decode_faults_def)

text \<open>
  Claim C2 (\<open>decode_faults(0xC0C0, 0x03, 0x03, 0x03)\<close> returns the twelve names of the
  table in order), as stated: \<open>0xC0C0\<close> has bits 15, 14, 7 and 6 set and bits 13 and 12
  clear, so the result has ten names and lacks \<open>VIN_UV\<close>.
\<close>

theorem decode_faults_C0C0_not_twelve:
  "length (decode_faults 0xC0C0 0x03 0x03 0x03) = 10
   \<and> decode_faults 0xC0C0 0x03 0x03 0x03 \<noteq> fault_names
   \<and> ''VIN_UV'' \<notin> set (decode_faults 0xC0C0 0x03 0x03 0x03)
   \<and> \<not> bit (0xC0C0 :: int) 13 \<and> \<not> bit (0xC0C0 :: int) 12"
  by (simp add: decode_faults_def fault_names_def)

text \<open>
  Claim C2, amended: \<open>decode_faults(0xC0C0, 0x03, 0x03, 0x03)\<close> returns exactly ten
  names, one for each tested bit that is set (bits 15, 14, 7 and 6 of the status word
  and bits 0 and 1 of the other three words), in source order: the list below.
  (All twelve rows are returned for the status word \<open>0xF0C0\<close>, lemma
  \<open>decode_faults_F0C0\<close>.)
\<close>

theorem decode_faults_C0C0_ten:
  "decode_faults 0xC0C0 0x03 0x03 0x03 =
     [''VOUT_OV'', ''IOUT_OC'', ''DEVICE_FAULT'', ''POWER_GOOD=NO'',
      ''IOUT_OC_WARNING'', ''IOUT_OC_FAULT'', ''VIN_UV_FAULT'', ''VIN_OV_FAULT'',
      ''TEMP_WARNING'', ''TEMP_FAULT'']"
  by (simp add: decode_faults_def)

text \<open>
  Claim C6: the result of \<open>decode_faults\<close> is never empty; when none of the twelve
  listed bits is set it is exactly \<open>["NO_FAULTS"]\<close>; \<open>decode_faults(0, 0, 0, 0)\<close> is
  \<open>["NO_FAULTS"]\<close> and \<open>decode_faults(0x8000, 0, 0, 0)\<close> is \<open>["VOUT_OV"]\<close>.
\<close>

theorem decode_faults_nonempty_sentinel:
  "decode_faults sw si sin' st \<noteq> []
   \<and> (\<not> bit sw 15 \<and> \<not> bit sw 14 \<and> \<not> bit sw 13 \<and> \<not> bit sw 12 \<and> \<not> bit sw 7 \<and> \<not> bit sw 6
      \<and> \<not> bit si 0 \<and> \<not> bit si 1 \<and> \<not> bit sin' 0 \<and> \<not> bit sin' 1 \<and> \<not> bit st 0 \<and> \<not> bit st 1
      \<longrightarrow> decode_faults sw si sin' st = [''NO_FAULTS''])
   \<and> decode_faults 0 0 0 0 = [''NO_FAULTS'']
   \<and> decode_faults 0x8000 0 0 0 = [''VOUT_OV'']"
proof (intro conjI impI)
  show "decode_faults sw si sin' st \<noteq> []"
    by (simp add: decode_faults_flags)
  show "decode_faults sw si sin' st = [''NO_FAULTS'']"
    if "\<not> bit sw 15 \<and> \<not> bit sw 14 \<and> \<not> bit sw 13 \<and> \<not> bit sw 12 \<and> \<not> bit sw 7 \<and> \<not> bit sw 6
      \<and> \<not> bit si 0 \<and> \<not> bit si 1 \<and> \<not> bit sin' 0 \<and> \<not> bit sin' 1 \<and> \<not> bit st 0 \<and> \<not> bit st 1"
    using that by (simp add: decode_faults_flags fault_flags_def)
  show "decode_faults 0 0 0 0 = [''NO_FAULTS'']"
    by (simp add: decode_faults_def)
  show "decode_faults 0x8000 0 0 0 = [''VOUT_OV'']"
    by (simp add: decode_faults_def)
qed

text \<open>
  An instance with every unlisted bit of the low twelve set in the status word and
  a negative temperature status: still no listed bit, still the sentinel alone.
\<close>

theorem decode_faults_nonempty_sentinel_witness:
  "\<not> bit (0x0F3F :: int) 15 \<and> \<not> bit (0x0F3F :: int) 14 \<and> \<not> bit (0x0F3F :: int) 13
   \<and> \<not> bit (0x0F3F :: int) 12 \<and> \<not> bit (0x0F3F :: int) 7 \<and> \<not> bit (0x0F3F :: int) 6
   \<and> \<not> bit (0xFC :: int) 0 \<and> \<not> bit (0xFC :: int) 1
   \<and> \<not> bit (4 :: int) 0 \<and> \<not> bit (4 :: int) 1
   \<and> \<not> bit (- 4 :: int) 0 \<and> \<not> bit (- 4 :: int) 1
   \<and> decode_faults 0x0F3F 0xFC 4 (- 4) = [''NO_FAULTS'']"
  using decode_faults_nonempty_sentinel [of "0x0F3F" "0xFC" 4 "- 4"] by simp

subsection \<open>Conversions\<close>

text \<open>
  Claim C7: \<open>raw_to_voltage(raw) = raw * 0.015625\<close> and \<open>raw_to_power(raw) = raw * 0.125\<close>;
  both are linear (additive and homogeneous) and monotonically non-decreasing in the
  raw value; \<open>raw_to_voltage\<close> maps 0 to 0 and 64 to 1, \<open>raw_to_power\<close> maps 0 to 0 and
  8 to 1.
\<close>

theorem raw_conversions_linear_monotone:
  "raw_to_voltage raw = of_int raw * 0.015625
   \<and> raw_to_power raw = of_int raw * 0.125
   \<and> raw_to_voltage (a + b) = raw_to_voltage a + raw_to_voltage b
   \<and> raw_to_voltage (k * a) = of_int k * raw_to_voltage a
   \<and> raw_to_power (a + b) = raw_to_power a + raw_to_power b
   \<and> raw_to_power (k * a) = of_int k * raw_to_power a
   \<and> (a \<le> b \<longrightarrow> raw_to_voltage a \<le> raw_to_voltage b \<and> raw_to_power a \<le> raw_to_power b)
   \<and> raw_to_voltage 0 = 0 \<and> raw_to_voltage 64 = 1
   \<and> raw_to_power 0 = 0 \<and> raw_to_power 8 = 1"
  by (simp add: raw_to_voltage_def raw_to_power_def algebra_simps)

text \<open>An instance of the monotonicity, at raw values 3 and 5.\<close>

theorem raw_conversions_linear_monotone_witness:
  "(3::int) \<le> 5 \<and> raw_to_voltage 3 \<le> raw_to_voltage 5 \<and> raw_to_power 3 \<le> raw_to_power 5
   \<and> raw_to_voltage 3 = 3 / 64 \<and> raw_to_power 5 = 5 / 8"
  using raw_conversions_linear_monotone [of 3 3 5 1]
    raw_conversions_linear_monotone [of 5 3 5 1] by simp

subsection \<open>Register-image devices\<close>

lemma obliging_image: "device i2c = image_device img \<Longrightarrow> obliging i2c"
  unfolding obliging_def
proof (intro allI)
  fix h c
  assume dev: "device i2c = image_device img"
  show "\<exists>d. device i2c h c = Some d \<and> (\<forall>addr reg. c = I2cRead addr reg 2 \<longrightarrow> 2 \<le> length d)"
    using dev by (cases c) simp_all
qed

lemma image_read_word:
  assumes "device i2c = image_device img"
  shows "read_word i2c addr reg =
           (Inr (img reg mod 65536), i2c\<lparr>calls := calls i2c @ [I2cRead addr reg 2]\<rparr>)"
proof -
  have "img reg mod 256 OR push_bit 8 (img reg div 256 mod 256) = img reg mod 65536"
    using or_bytes [of "img reg mod 256" "img reg div 256 mod 256"] word_split [of "img reg"]
    by simp
  then show ?thesis
    using assms by (simp add: read_word_def i2c_read_def transport_def)
qed

lemma image_select_page:
  assumes "device i2c = image_device img"
  shows "select_page i2c page =
           (Inr (), i2c\<lparr>calls := calls i2c @ [I2cWrite MP5922_ADDR 0x00 [page mod 256], Sleep 0.01]\<rparr>)"
  by (rule select_page_ok [OF obliging_image [OF assms]])

lemma image_show_status_rail:
  assumes "device i2c = image_device img"
  shows "show_status_rail i2c page name tot =
     (Inr (tot + raw_to_power (img 0x96 mod 65536),
        \<lparr>rail_page = page, rail_name = name,
         rail_vin_raw = img 0x88 mod 65536, rail_vout_raw = img 0x8B mod 65536,
         rail_iout_raw = img 0x8C mod 65536, rail_pout_raw = img 0x96 mod 65536,
         rail_vin = raw_to_voltage (img 0x88 mod 65536),
         rail_vout = raw_to_voltage (img 0x8B mod 65536),
         rail_pout = raw_to_power (img 0x96 mod 65536),
         rail_iout = (if raw_to_voltage (img 0x8B mod 65536) > 0
                      then raw_to_power (img 0x96 mod 65536) / raw_to_voltage (img 0x8B mod 65536)
                      else 0),
         rail_faults = decode_faults (img 0x79 mod 65536) (img 0x7B mod 65536)
                         (img 0x7C mod 65536) (img 0x7D mod 65536)\<rparr>),
      i2c\<lparr>calls := calls i2c @ rail_history page\<rparr>)"
  unfolding show_status_rail_def Let_def derived_iout_total
  using assms by (simp add: image_select_page image_read_word rail_history_def)

lemma bench_rail_pass:
  assumes "device i2c = image_device bench_word \<or> device i2c = image_device dark_word"
  shows "show_status_rail i2c page name tot =
           (Inr (tot + 2, bench_rail page name), i2c\<lparr>calls := calls i2c @ rail_history page\<rparr>)"
proof -
  have d: "decode_faults 4096 0 0 2 = [''TEMP_FAULT'', ''TEMP_FAULT'']"
    by (simp add: decode_faults_def)
  from assms show ?thesis
  proof
    assume "device i2c = image_device bench_word"
    then show ?thesis
      by (simp add: image_show_status_rail bench_word_def bench_rail_def
          raw_to_voltage_def raw_to_power_def d)
  next
    assume "device i2c = image_device dark_word"
    then show ?thesis
      by (simp add: image_show_status_rail dark_word_def bench_word_def bench_rail_def
          raw_to_voltage_def raw_to_power_def d)
  qed
qed

lemma off_rail_pass:
  assumes "device i2c = image_device off_word"
  shows "show_status_rail i2c page name tot =
           (Inr (tot, off_rail page name), i2c\<lparr>calls := calls i2c @ rail_history page\<rparr>)"
proof -
  have d: "decode_faults 0 0 0 0 = [''NO_FAULTS'']"
    by (simp add: decode_faults_def)
  show ?thesis
    using assms
    by (simp add: image_show_status_rail off_word_def off_rail_def
        raw_to_voltage_def raw_to_power_def d)
qed

lemma show_status_bench:
  "show_status bench =
     (Inr \<lparr>sys_pin_raw = 80, sys_pin_w = 10,
          sys_rails = [bench_rail 0 ''Main Rail (Loop 1)'', bench_rail 1 ''Aux Rail  (Loop 2)'',
                       bench_rail 2 ''Rail 3    (Loop 3)''],
          sys_total_pout = 6, sys_loss = 4, sys_eff = 60\<rparr>,
      bench\<lparr>calls := status_history\<rparr>)"
  unfolding show_status_def show_status_of_def PAGES_def Let_def efficiency_total
  by (simp add: bench_def image_read_word bench_rail_pass bench_word_def raw_to_power_def
      status_history_def)

lemma show_status_dark_bench:
  "show_status dark_bench =
     (Inr \<lparr>sys_pin_raw = 0, sys_pin_w = 0,
          sys_rails = [bench_rail 0 ''Main Rail (Loop 1)'', bench_rail 1 ''Aux Rail  (Loop 2)'',
                       bench_rail 2 ''Rail 3    (Loop 3)''],
          sys_total_pout = 6, sys_loss = - 6, sys_eff = 0\<rparr>,
      dark_bench\<lparr>calls := status_history\<rparr>)"
  unfolding show_status_def show_status_of_def PAGES_def Let_def efficiency_total
  by (simp add: dark_bench_def image_read_word bench_rail_pass dark_word_def raw_to_power_def
      status_history_def)

lemma show_status_off_bench:
  "show_status off_bench =
     (Inr \<lparr>sys_pin_raw = 0, sys_pin_w = 0,
          sys_rails = [off_rail 0 ''Main Rail (Loop 1)'', off_rail 1 ''Aux Rail  (Loop 2)'',
                       off_rail 2 ''Rail 3    (Loop 3)''],
          sys_total_pout = 0, sys_loss = 0, sys_eff = 0\<rparr>,
      off_bench\<lparr>calls := status_history\<rparr>)"
  unfolding show_status_def show_status_of_def PAGES_def Let_def efficiency_total
  by (simp add: off_bench_def image_read_word off_rail_pass off_word_def raw_to_power_def
      status_history_def)

subsection \<open>The status read: call log, summary and derived current\<close>

lemma transport_log_append:
  "transport_log (i2c\<lparr>calls := calls i2c @ cs\<rparr>) = transport_log i2c @ filter is_transport_call cs"
  by (simp add: transport_log_def)

text \<open>
  Claim C8: a status read that completes adds to the transport call log exactly one
  read of the global input-power register \<open>0x97\<close> and then, for each configured rail in
  the configured order, one page-select write followed by the reads of \<open>0x88\<close>, \<open>0x8B\<close>,
  \<open>0x8C\<close>, \<open>0x96\<close>, \<open>0x79\<close>, \<open>0x7B\<close>, \<open>0x7C\<close> and \<open>0x7D\<close>; the reports come in the
  configured order. (On an obliging device the status read does complete, lemma
  \<open>show_status_of_ok\<close>.)
\<close>

theorem show_status_transport_log:
  assumes "show_status_of pages i2c = (Inr rep, i2c')"
  shows "transport_log i2c' =
           transport_log i2c @ I2cRead MP5922_ADDR 0x97 2 # concat (map rail_log (map fst pages))
         \<and> map rail_page (sys_rails rep) = map fst pages
         \<and> map rail_name (sys_rails rep) = map snd pages"
  using show_status_of_Inr(1,2,3) [OF assms]
  by (simp add: transport_log_append filter_concat_rail_history del: map_map)

text \<open>The log of one status read of the three configured rails on the bench.\<close>

theorem show_status_transport_log_witness:
  "transport_log (snd (show_status bench)) =
     [I2cRead 0x70 0x97 2,
      I2cWrite 0x70 0x00 [0], I2cRead 0x70 0x88 2, I2cRead 0x70 0x8B 2, I2cRead 0x70 0x8C 2,
      I2cRead 0x70 0x96 2, I2cRead 0x70 0x79 2, I2cRead 0x70 0x7B 2, I2cRead 0x70 0x7C 2,
      I2cRead 0x70 0x7D 2,
      I2cWrite 0x70 0x00 [1], I2cRead 0x70 0x88 2, I2cRead 0x70 0x8B 2, I2cRead 0x70 0x8C 2,
      I2cRead 0x70 0x96 2, I2cRead 0x70 0x79 2, I2cRead 0x70 0x7B 2, I2cRead 0x70 0x7C 2,
      I2cRead 0x70 0x7D 2,
      I2cWrite 0x70 0x00 [2], I2cRead 0x70 0x88 2, I2cRead 0x70 0x8B 2, I2cRead 0x70 0x8C 2,
      I2cRead 0x70 0x96 2, I2cRead 0x70 0x79 2, I2cRead 0x70 0x7B 2, I2cRead 0x70 0x7C 2,
      I2cRead 0x70 0x7D 2]
   \<and> map rail_page (sys_rails (projr (fst (show_status bench)))) = [0, 1, 2]"
  using show_status_transport_log [OF show_status_bench [unfolded show_status_def]]
  by (simp add: show_status_bench PAGES_def rail_log_def MP5922_ADDR_def transport_log_def
      status_history_def rail_history_def bench_rail_def)

text \<open>
  Claim C4: in every report of a status read, the loss is the input power minus the
  total output power; the efficiency is 0 when the input power is at most 0 and
  \<open>total_pout / pin_w * 100\<close> otherwise; at input power 0 the loss is minus the total
  output power, kept negative. The input power is the converted raw word and the
  total is the sum of the rails' output powers.
\<close>

theorem show_status_loss_efficiency:
  assumes "show_status_of pages i2c = (Inr rep, i2c')"
  shows "sys_loss rep = sys_pin_w rep - sys_total_pout rep
         \<and> (sys_pin_w rep \<le> 0 \<longrightarrow> sys_eff rep = 0)
         \<and> (0 < sys_pin_w rep \<longrightarrow> sys_eff rep = sys_total_pout rep / sys_pin_w rep * 100)
         \<and> (sys_pin_w rep = 0 \<longrightarrow> sys_eff rep = 0 \<and> sys_loss rep = - sys_total_pout rep)
         \<and> sys_pin_w rep = raw_to_power (sys_pin_raw rep)
         \<and> sys_total_pout rep = sum_list (map rail_pout (sys_rails rep))"
  using show_status_of_Inr(4,5,6,7) [OF assms]
  by (simp add: efficiency_total split: if_splits)

text \<open>
  The bench (10 W in, 6 W out: loss 4 W, efficiency 60 percent) and the dark bench
  (0 W in, 6 W out: loss -6 W, efficiency 0).
\<close>

theorem show_status_loss_efficiency_witness:
  "sys_pin_w (projr (fst (show_status bench))) = 10
   \<and> sys_total_pout (projr (fst (show_status bench))) = 6
   \<and> sys_loss (projr (fst (show_status bench))) = 4
   \<and> sys_eff (projr (fst (show_status bench))) = 60
   \<and> sys_pin_w (projr (fst (show_status dark_bench))) = 0
   \<and> sys_total_pout (projr (fst (show_status dark_bench))) = 6
   \<and> sys_loss (projr (fst (show_status dark_bench))) = - 6
   \<and> sys_eff (projr (fst (show_status dark_bench))) = 0"
  using show_status_loss_efficiency [OF show_status_bench [unfolded show_status_def]]
    show_status_loss_efficiency [OF show_status_dark_bench [unfolded show_status_def]]
  by (simp add: show_status_bench show_status_dark_bench)

text \<open>
  Claim C5: the derived current is exactly 0 for every power when the voltage is at
  most 0, and power divided by voltage when the voltage is positive; the division is
  never reached with a zero divisor, neither in the expression nor in a status read,
  and every rail of a status read carries the current derived from its own converted
  power and voltage.
\<close>

theorem derived_iout_guarded:
  "(vout \<le> 0 \<longrightarrow> derived_iout pout vout = Inr 0)
   \<and> (0 < vout \<longrightarrow> derived_iout pout vout = Inr (pout / vout))
   \<and> derived_iout pout vout \<noteq> Inl ZeroDivisionError
   \<and> fst (show_status_of pages i2c) \<noteq> Inl ZeroDivisionError
   \<and> (show_status_of pages i2c = (Inr rep, i2c') \<longrightarrow>
        (\<forall>r \<in> set (sys_rails rep).
           rail_vout r = raw_to_voltage (rail_vout_raw r)
         \<and> rail_pout r = raw_to_power (rail_pout_raw r)
         \<and> derived_iout (rail_pout r) (rail_vout r) = Inr (rail_iout r)))"
proof (intro conjI impI)
  show "derived_iout pout vout = Inr 0" if "vout \<le> 0"
    using that by (simp add: derived_iout_total)
  show "derived_iout pout vout = Inr (pout / vout)" if "0 < vout"
    using that by (simp add: derived_iout_total)
  show "derived_iout pout vout \<noteq> Inl ZeroDivisionError"
    by (simp add: derived_iout_total)
  show "fst (show_status_of pages i2c) \<noteq> Inl ZeroDivisionError"
  proof
    assume "fst (show_status_of pages i2c) = Inl ZeroDivisionError"
    then have "show_status_of pages i2c = (Inl ZeroDivisionError, snd (show_status_of pages i2c))"
      by (metis prod.collapse)
    from show_status_of_error [OF this] show False by simp
  qed
  show "\<forall>r \<in> set (sys_rails rep).
           rail_vout r = raw_to_voltage (rail_vout_raw r)
         \<and> rail_pout r = raw_to_power (rail_pout_raw r)
         \<and> derived_iout (rail_pout r) (rail_vout r) = Inr (rail_iout r)"
    if "show_status_of pages i2c = (Inr rep, i2c')"
    by (rule show_status_of_Inr(8) [OF that])
qed

text \<open>
  Voltages 0, -3 and 5 at power 2; the rails of the bench (5 V, 2 W) and of the
  switched-off bench (0 V, 0 W).
\<close>

theorem derived_iout_guarded_witness:
  "derived_iout 2 0 = Inr 0 \<and> derived_iout 2 (- 3) = Inr 0 \<and> derived_iout 2 5 = Inr (2 / 5)
   \<and> map rail_vout (sys_rails (projr (fst (show_status bench)))) = [5, 5, 5]
   \<and> map rail_iout (sys_rails (projr (fst (show_status bench)))) = [2 / 5, 2 / 5, 2 / 5]
   \<and> map rail_vout (sys_rails (projr (fst (show_status off_bench)))) = [0, 0, 0]
   \<and> map rail_iout (sys_rails (projr (fst (show_status off_bench)))) = [0, 0, 0]"
  using derived_iout_guarded [of 0 2 PAGES bench
        "projr (fst (show_status bench))" "snd (show_status bench)"]
    derived_iout_guarded [of "- 3" 2 PAGES off_bench
        "projr (fst (show_status off_bench))" "snd (show_status off_bench)"]
    derived_iout_guarded [of 5 2 PAGES bench
        "projr (fst (show_status bench))" "snd (show_status bench)"]
  by (simp add: show_status_bench show_status_off_bench bench_rail_def off_rail_def)

subsection \<open>Word reads and register writes\<close>

text \<open>
  Claim C9: \<open>read_word\<close> asks the transport for exactly 2 bytes and composes the first
  two bytes of the answer as \<open>byte0 | byte1 << 8\<close> (for a byte in range, \<open>byte0 + 256 *
  byte1\<close>); when the answer has fewer than two bytes the read fails with \<open>IndexError\<close>
  instead of returning a value, and a transport failure is passed on.
\<close>

theorem read_word_little_endian_or_fails:
  "calls (snd (read_word i2c addr reg)) = calls i2c @ [I2cRead addr reg 2]
   \<and> (device i2c (calls i2c) (I2cRead addr reg 2) = Some (b0 # b1 # rest) \<longrightarrow>
        fst (read_word i2c addr reg) = Inr (b0 OR push_bit 8 b1)
        \<and> (0 \<le> b0 \<and> b0 < 256 \<longrightarrow> b0 OR push_bit 8 b1 = b0 + 256 * b1))
   \<and> (device i2c (calls i2c) (I2cRead addr reg 2) = Some d \<and> length d < 2 \<longrightarrow>
        fst (read_word i2c addr reg) = Inl IndexError)
   \<and> (device i2c (calls i2c) (I2cRead addr reg 2) = None \<longrightarrow>
        fst (read_word i2c addr reg) = Inl TransportError)"
proof (intro conjI impI)
  show "calls (snd (read_word i2c addr reg)) = calls i2c @ [I2cRead addr reg 2]"
    by (simp add: snd_read_word)
  show "fst (read_word i2c addr reg) = Inr (b0 OR push_bit 8 b1)"
    if "device i2c (calls i2c) (I2cRead addr reg 2) = Some (b0 # b1 # rest)"
    using that by (simp add: fst_read_word)
  show "b0 OR push_bit 8 b1 = b0 + 256 * b1" if "0 \<le> b0 \<and> b0 < 256"
    using that by (simp add: or_bytes)
  show "fst (read_word i2c addr reg) = Inl IndexError"
    if "device i2c (calls i2c) (I2cRead addr reg 2) = Some d \<and> length d < 2"
  proof -
    from that have "d = [] \<or> (\<exists>b. d = [b])"
      by (cases d; cases "tl d") auto
    with that show ?thesis
      by (auto simp: fst_read_word)
  qed
  show "fst (read_word i2c addr reg) = Inl TransportError"
    if "device i2c (calls i2c) (I2cRead addr reg 2) = None"
    using that by (simp add: fst_read_word)
qed

text \<open>A two-byte answer, a one-byte answer and a failing transport.\<close>

theorem read_word_little_endian_or_fails_witness:
  "device bench (calls bench) (I2cRead 0x70 0x88 2) = Some [0x00, 0x03]
   \<and> fst (read_word bench 0x70 0x88) = Inr 768
   \<and> device short_bench (calls short_bench) (I2cRead 0x70 0x88 2) = Some [0x34]
   \<and> fst (read_word short_bench 0x70 0x88) = Inl IndexError
   \<and> device dead_bench (calls dead_bench) (I2cRead 0x70 0x88 2) = None
   \<and> fst (read_word dead_bench 0x70 0x88) = Inl TransportError
   \<and> calls (snd (read_word short_bench 0x70 0x88)) = [I2cRead 0x70 0x88 2]"
  using read_word_little_endian_or_fails [of bench "0x70" "0x88" "0x00" "0x03" "[]" "[]"]
    read_word_little_endian_or_fails [of short_bench "0x70" "0x88" 0 0 "[]" "[0x34]"]
    read_word_little_endian_or_fails [of dead_bench "0x70" "0x88" 0 0 "[]" "[]"]
  by (simp add: bench_def bench_word_def short_bench_def short_device_def
      dead_bench_def dead_device_def)

text \<open>
  Claim C10: for every integer value, \<open>write_word\<close> sends the low byte and then the high
  byte of the value modulo \<open>2\<^sup>1\<^sup>6\<close>, \<open>write_byte\<close> and \<open>select_page\<close> send the value
  modulo \<open>2\<^sup>8\<close> as one byte; every byte sent lies in 0..255 and no value is rejected.
\<close>

theorem writes_truncate_to_field_width:
  "calls (snd (write_word i2c addr reg v)) =
     calls i2c @ [I2cWrite addr reg [v mod 256, v div 256 mod 256]]
   \<and> v mod 256 + 256 * (v div 256 mod 256) = v mod 2 ^ 16
   \<and> calls (snd (write_byte i2c addr reg v)) = calls i2c @ [I2cWrite addr reg [v mod 2 ^ 8]]
   \<and> transport_log (snd (select_page i2c v)) =
       transport_log i2c @ [I2cWrite MP5922_ADDR 0x00 [v mod 2 ^ 8]]
   \<and> 0 \<le> v mod 256 \<and> v mod 256 \<le> 255
   \<and> 0 \<le> v div 256 mod 256 \<and> v div 256 mod 256 \<le> 255
   \<and> fst (write_word i2c addr reg v) \<noteq> Inl ValueError
   \<and> fst (write_byte i2c addr reg v) \<noteq> Inl ValueError
   \<and> fst (select_page i2c v) \<noteq> Inl ValueError"
proof (intro conjI)
  show "calls (snd (write_word i2c addr reg v)) =
     calls i2c @ [I2cWrite addr reg [v mod 256, v div 256 mod 256]]"
    by (simp add: write_word_def snd_i2c_write and_255 drop_8)
  show "v mod 256 + 256 * (v div 256 mod 256) = v mod 2 ^ 16"
    using word_split [of v] by simp
  show "calls (snd (write_byte i2c addr reg v)) = calls i2c @ [I2cWrite addr reg [v mod 2 ^ 8]]"
    by (simp add: write_byte_def snd_i2c_write and_255)
  show "transport_log (snd (select_page i2c v)) =
       transport_log i2c @ [I2cWrite MP5922_ADDR 0x00 [v mod 2 ^ 8]]"
    by (simp add: select_page_def i2c_write_def transport_def time_sleep_def transport_log_def
        and_255 split: option.splits)
  show "0 \<le> v mod 256" "v mod 256 \<le> 255" "0 \<le> v div 256 mod 256" "v div 256 mod 256 \<le> 255"
    by simp_all
  show "fst (write_word i2c addr reg v) \<noteq> Inl ValueError"
    by (simp add: write_word_def fst_i2c_write split: option.splits)
  show "fst (write_byte i2c addr reg v) \<noteq> Inl ValueError"
    by (simp add: write_byte_def fst_i2c_write split: option.splits)
  show "fst (select_page i2c v) \<noteq> Inl ValueError"
    by (simp add: select_page_def i2c_write_def transport_def time_sleep_def split: option.splits)
qed

text \<open>Oversized and negative values wrap silently.\<close>

lemma write_examples:
  "calls (snd (write_word bench 0x70 0xE1 0x82C2)) = [I2cWrite 0x70 0xE1 [0xC2, 0x82]]"
  "calls (snd (write_word bench 0x70 0xE1 0x12345)) = [I2cWrite 0x70 0xE1 [0x45, 0x23]]"
  "calls (snd (write_byte bench 0x70 0x01 (- 1))) = [I2cWrite 0x70 0x01 [0xFF]]"
  "calls (snd (select_page bench 300)) = [I2cWrite 0x70 0x00 [44], Sleep 0.01]"
  by (simp_all add: write_word_def write_byte_def select_page_def i2c_write_def transport_def
      time_sleep_def bench_def MP5922_ADDR_def)

subsection \<open>Rail enable and disable\<close>

lemma snd_select_page_accepted:
  assumes "device i2c (calls i2c) (I2cWrite MP5922_ADDR 0x00 [page mod 256]) \<noteq> None"
  shows "select_page i2c page =
           (Inr (), i2c\<lparr>calls := calls i2c @ [I2cWrite MP5922_ADDR 0x00 [page mod 256], Sleep 0.01]\<rparr>)"
  using assms
  by (auto simp: select_page_def i2c_write_def transport_def time_sleep_def and_255)

lemma select_page_refused:
  assumes "device i2c (calls i2c) (I2cWrite MP5922_ADDR 0x00 [page mod 256]) = None"
  shows "select_page i2c page =
           (Inl TransportError, i2c\<lparr>calls := calls i2c @ [I2cWrite MP5922_ADDR 0x00 [page mod 256]]\<rparr>)"
  using assms
  by (simp add: select_page_def i2c_write_def transport_def time_sleep_def and_255)

lemma rail_switch_calls:
  "calls (snd (then_do (select_page i2c page) (\<lambda>_ i2c. write_byte i2c MP5922_ADDR 0x01 v))) =
     calls i2c @ I2cWrite MP5922_ADDR 0x00 [page mod 256] #
       (if device i2c (calls i2c) (I2cWrite MP5922_ADDR 0x00 [page mod 256]) = None then []
        else [Sleep 0.01, I2cWrite MP5922_ADDR 0x01 [v mod 256]])"
proof (cases "device i2c (calls i2c) (I2cWrite MP5922_ADDR 0x00 [page mod 256]) = None")
  case True
  then show ?thesis by (simp add: select_page_refused)
next
  case False
  then show ?thesis
    by (simp add: snd_select_page_accepted write_byte_def snd_i2c_write and_255)
qed

lemma rail_switch_result:
  "fst (then_do (select_page i2c page) (\<lambda>_ i2c. write_byte i2c MP5922_ADDR 0x01 v)) = Inr ()
   \<or> fst (then_do (select_page i2c page) (\<lambda>_ i2c. write_byte i2c MP5922_ADDR 0x01 v))
       = Inl TransportError"
proof (cases "device i2c (calls i2c) (I2cWrite MP5922_ADDR 0x00 [page mod 256]) = None")
  case True
  then show ?thesis by (simp add: select_page_refused)
next
  case False
  then show ?thesis
    by (simp add: snd_select_page_accepted write_byte_def fst_i2c_write split: option.splits)
qed

text \<open>
  Claim C3 (for a rail index outside the configured set, rail enable and rail disable
  fail before any register access), as stated: index 7 is not a key of \<open>PAGES\<close>, yet
  \<open>rail_enable\<close> and \<open>rail_disable\<close> return normally after the page-select write and
  the operation-register write, and so does \<open>main\<close> for the command line \<open>on 7\<close>.
\<close>

theorem rail_enable_unconfigured_page:
  "7 \<notin> set (map fst PAGES)
   \<and> rail_enable bench 7 =
       (Inr (), bench\<lparr>calls := [I2cWrite 0x70 0x00 [7], Sleep 0.01, I2cWrite 0x70 0x01 [0x80]]\<rparr>)
   \<and> rail_disable bench 7 =
       (Inr (), bench\<lparr>calls := [I2cWrite 0x70 0x00 [7], Sleep 0.01, I2cWrite 0x70 0x01 [0x00]]\<rparr>)
   \<and> main decimal_int [''efuse_code.py'', ''on'', ''7''] bench =
       (Inr PrintedNothing,
        bench\<lparr>calls := [Open ''/dev/ttyACM0'', SetupI2c 100,
                         I2cWrite 0x70 0xE1 [0xC2, 0x82], Sleep 0.02,
                         I2cWrite 0x70 0x00 [7], Sleep 0.01, I2cWrite 0x70 0x01 [0x80],
                         Close]\<rparr>)"
proof (intro conjI)
  show "7 \<notin> set (map fst PAGES)" by (simp add: PAGES_def)
  show en: "rail_enable bench 7 =
       (Inr (), bench\<lparr>calls := [I2cWrite 0x70 0x00 [7], Sleep 0.01, I2cWrite 0x70 0x01 [0x80]]\<rparr>)"
    by (simp add: rail_enable_def select_page_def write_byte_def i2c_write_def transport_def
        time_sleep_def bench_def MP5922_ADDR_def)
  show "rail_disable bench 7 =
       (Inr (), bench\<lparr>calls := [I2cWrite 0x70 0x00 [7], Sleep 0.01, I2cWrite 0x70 0x01 [0x00]]\<rparr>)"
    by (simp add: rail_disable_def select_page_def write_byte_def i2c_write_def transport_def
        time_sleep_def bench_def MP5922_ADDR_def)
  have arg: "decimal_int ''7'' = Inr 7"
    by (simp add: decimal_int_def digit_value_def)
  show "main decimal_int [''efuse_code.py'', ''on'', ''7''] bench =
       (Inr PrintedNothing,
        bench\<lparr>calls := [Open ''/dev/ttyACM0'', SetupI2c 100,
                         I2cWrite 0x70 0xE1 [0xC2, 0x82], Sleep 0.02,
                         I2cWrite 0x70 0x00 [7], Sleep 0.01, I2cWrite 0x70 0x01 [0x80],
                         Close]\<rparr>)"
    by (simp add: main_def argv_at_def arg unlock_mp5922_def write_word_def
        rail_enable_def select_page_def write_byte_def i2c_write_def transport_def
        time_sleep_def bench_def MP5922_ADDR_def PORT_def I2C_SPEED_KHZ_def)
qed

text \<open>
  Claim C3, amended: rail enable and rail disable check no index. For every rail
  index, configured or not, the first call they make is the page-select write of the
  index modulo 256 to register \<open>0x00\<close>; when the transport accepts it they sleep 10 ms
  and write \<open>0x80\<close> (enable) or \<open>0x00\<close> (disable) to the operation register \<open>0x01\<close>. They
  end normally or with a transport error, never with an index error.
\<close>

theorem rail_switch_any_page:
  "(\<exists>rest. calls (snd (rail_enable i2c page)) =
       calls i2c @ I2cWrite MP5922_ADDR 0x00 [page mod 256] # rest)
   \<and> (\<exists>rest. calls (snd (rail_disable i2c page)) =
       calls i2c @ I2cWrite MP5922_ADDR 0x00 [page mod 256] # rest)
   \<and> (device i2c (calls i2c) (I2cWrite MP5922_ADDR 0x00 [page mod 256]) \<noteq> None \<longrightarrow>
        calls (snd (rail_enable i2c page)) =
          calls i2c @ [I2cWrite MP5922_ADDR 0x00 [page mod 256], Sleep 0.01,
                       I2cWrite MP5922_ADDR 0x01 [0x80]]
      \<and> calls (snd (rail_disable i2c page)) =
          calls i2c @ [I2cWrite MP5922_ADDR 0x00 [page mod 256], Sleep 0.01,
                       I2cWrite MP5922_ADDR 0x01 [0x00]])
   \<and> (fst (rail_enable i2c page) = Inr () \<or> fst (rail_enable i2c page) = Inl TransportError)
   \<and> (fst (rail_disable i2c page) = Inr () \<or> fst (rail_disable i2c page) = Inl TransportError)"
proof (intro conjI impI)
  show "\<exists>rest. calls (snd (rail_enable i2c page)) =
       calls i2c @ I2cWrite MP5922_ADDR 0x00 [page mod 256] # rest"
    unfolding rail_enable_def rail_switch_calls by blast
  show "\<exists>rest. calls (snd (rail_disable i2c page)) =
       calls i2c @ I2cWrite MP5922_ADDR 0x00 [page mod 256] # rest"
    unfolding rail_disable_def rail_switch_calls by blast
  show "calls (snd (rail_enable i2c page)) =
          calls i2c @ [I2cWrite MP5922_ADDR 0x00 [page mod 256], Sleep 0.01,
                       I2cWrite MP5922_ADDR 0x01 [0x80]]"
    if "device i2c (calls i2c) (I2cWrite MP5922_ADDR 0x00 [page mod 256]) \<noteq> None"
    unfolding rail_enable_def rail_switch_calls using that by simp
  show "calls (snd (rail_disable i2c page)) =
          calls i2c @ [I2cWrite MP5922_ADDR 0x00 [page mod 256], Sleep 0.01,
                       I2cWrite MP5922_ADDR 0x01 [0x00]]"
    if "device i2c (calls i2c) (I2cWrite MP5922_ADDR 0x00 [page mod 256]) \<noteq> None"
    unfolding rail_disable_def rail_switch_calls using that by simp
  show "fst (rail_enable i2c page) = Inr () \<or> fst (rail_enable i2c page) = Inl TransportError"
    unfolding rail_enable_def by (rule rail_switch_result)
  show "fst (rail_disable i2c page) = Inr () \<or> fst (rail_disable i2c page) = Inl TransportError"
    unfolding rail_disable_def by (rule rail_switch_result)
qed

text \<open>Index 300 on the bench: page 44 is selected and switched.\<close>

theorem rail_switch_any_page_witness:
  "device bench (calls bench) (I2cWrite MP5922_ADDR 0x00 [300 mod 256]) \<noteq> None
   \<and> 300 \<notin> set (map fst PAGES)
   \<and> calls (snd (rail_enable bench 300)) =
       [I2cWrite 0x70 0x00 [44], Sleep 0.01, I2cWrite 0x70 0x01 [0x80]]
   \<and> calls (snd (rail_disable bench 300)) =
       [I2cWrite 0x70 0x00 [44], Sleep 0.01, I2cWrite 0x70 0x01 [0x00]]"
  using rail_switch_any_page [of bench 300]
  by (simp add: bench_def MP5922_ADDR_def PAGES_def)

text \<open>
  \<open>main\<close> hands the converted argument of \<open>on\<close> and \<open>off\<close> to \<open>rail_enable\<close> and
  \<open>rail_disable\<close> unchecked: on a device that accepts every call, whatever the index.
\<close>

lemma transport_accepted:
  assumes "\<forall>h c. device i2c h c \<noteq> None"
  shows "transport i2c c = (Inr (the (device i2c (calls i2c) c)), i2c\<lparr>calls := calls i2c @ [c]\<rparr>)"
  using assms by (auto simp: transport_def split: option.splits)

lemma i2c_write_accepted:
  assumes "\<forall>h c. device i2c h c \<noteq> None"
  shows "i2c_write i2c addr reg data = (Inr (), i2c\<lparr>calls := calls i2c @ [I2cWrite addr reg data]\<rparr>)"
  using assms by (simp add: i2c_write_def transport_accepted)

lemma main_on_off_any_page:
  assumes acc: "\<forall>h c. device i2c h c \<noteq> None" and arg: "to_int arg = Inr page"
  shows "main to_int [prog, ''on'', arg] i2c =
           (Inr PrintedNothing,
            i2c\<lparr>calls := calls i2c @
              [Open PORT, SetupI2c I2C_SPEED_KHZ,
               I2cWrite MP5922_ADDR 0xE1 [0xC2, 0x82], Sleep 0.02,
               I2cWrite MP5922_ADDR 0x00 [page mod 256], Sleep 0.01,
               I2cWrite MP5922_ADDR 0x01 [0x80], Close]\<rparr>)"
    and "main to_int [prog, ''off'', arg] i2c =
           (Inr PrintedNothing,
            i2c\<lparr>calls := calls i2c @
              [Open PORT, SetupI2c I2C_SPEED_KHZ,
               I2cWrite MP5922_ADDR 0xE1 [0xC2, 0x82], Sleep 0.02,
               I2cWrite MP5922_ADDR 0x00 [page mod 256], Sleep 0.01,
               I2cWrite MP5922_ADDR 0x01 [0x00], Close]\<rparr>)"
  using acc
  by (simp_all add: main_def argv_at_def arg unlock_mp5922_def write_word_def
      rail_enable_def rail_disable_def select_page_def write_byte_def i2c_write_accepted
      transport_accepted time_sleep_def and_255)

end
